theory Spec2Isabelle
  imports Complex_Main
begin

section \<open>Numbers and their decimal rendering\<close>

text \<open>
  The numbers the program formats are integers held in JavaScript numbers (the two
  components of a \<^verbatim>\<open>process.hrtime()\<close> reading, a port, a database index). They are
  modelled as \<^typ>\<open>int\<close>, which is exact for every integer a JavaScript number holds
  exactly, that is below \<open>2 ^ 53\<close> in absolute value. A template literal renders such
  an integer in decimal.
\<close>

definition digit :: "nat \<Rightarrow> char" where
  "digit d = ''0123456789'' ! d"

function digits :: "int \<Rightarrow> string" where
  "digits n = (if n < 10 then [digit (nat n)] else digits (n div 10) @ [digit (nat (n mod 10))])"
  by pat_completeness auto
termination
  by (relation "measure nat") auto

declare digits.simps [simp del]

definition show_int :: "int \<Rightarrow> string" where
  "show_int n = (if n < 0 then ''-'' @ digits (- n) else digits n)"

text \<open>
  Reading a decimal numeral back: the number a string of digits stands for. It is used
  only to say which digits a rendering shows.
\<close>

definition digit_value :: "char \<Rightarrow> int" where
  "digit_value c = int (of_char c) - 48"

definition numeral_value :: "string \<Rightarrow> int" where
  "numeral_value s = foldl (\<lambda>a c. 10 * a + digit_value c) 0 s"

subsection \<open>Division of two integers in double precision\<close>

text \<open>
  \<^verbatim>\<open>nanoseconds / nanosecondsPerMillisecond\<close> is a division of doubles: the exact
  quotient rounded to the nearest number with a 53-bit significand, ties to even. For
  \<open>0 \<le> n\<close> and \<open>0 < d\<close> with \<open>n / d < 2 ^ 53\<close> the result is the dyadic fraction
  \<open>m / 2 ^ k\<close> returned here as the pair \<open>(m, 2 ^ k)\<close>; \<open>k\<close> is the least shift that
  brings the quotient to \<open>2 ^ 52\<close> or above. Zero is \<open>(0, 1)\<close>.
\<close>

function binary_exponent :: "int \<Rightarrow> int \<Rightarrow> nat" where
  "binary_exponent n d =
     (if n \<le> 0 \<or> d * 2 ^ 52 \<le> n then 0 else Suc (binary_exponent (2 * n) d))"
  by pat_completeness auto
termination
  by (relation "measure (\<lambda>(n, d). nat (d * 2 ^ 52 - n))") auto

declare binary_exponent.simps [simp del]

definition round_half_even :: "int \<Rightarrow> int \<Rightarrow> int" where
  "round_half_even a b =
     (let q = a div b; r = a mod b
      in if 2 * r < b then q else if b < 2 * r then q + 1 else if even q then q else q + 1)"

definition divide_double :: "int \<Rightarrow> int \<Rightarrow> int \<times> int" where
  "divide_double n d =
     (let k = binary_exponent n d in (round_half_even (n * 2 ^ k) d, 2 ^ k))"

subsection \<open>\<^verbatim>\<open>Number.prototype.toPrecision\<close>\<close>

text \<open>
  \<^verbatim>\<open>x.toPrecision(p)\<close> for a number \<open>x = a / b \<ge> 0\<close>, as ECMAScript defines it: zero is
  \<open>p\<close> zeros with a point after the first; otherwise \<open>n\<close> and \<open>e\<close> are chosen with
  \<open>10 ^ (p - 1) \<le> n < 10 ^ p\<close> and \<open>n * 10 ^ (e - p + 1)\<close> nearest to \<open>x\<close> (the larger
  \<open>n\<close> on a tie), and the \<open>p\<close> digits of \<open>n\<close> are written in exponential notation when
  \<open>e < - 6\<close> or \<open>p \<le> e\<close>, in fixed notation otherwise. \<open>digits_below\<close> counts the
  decimal places \<open>x\<close> lies below \<open>10 ^ (p - 1)\<close>, \<open>digits_above\<close> those it lies at or
  above \<open>10 ^ p\<close>.
\<close>

function digits_below :: "int \<Rightarrow> int \<Rightarrow> nat" where
  "digits_below a b = (if a \<le> 0 \<or> b \<le> a then 0 else Suc (digits_below (10 * a) b))"
  by pat_completeness auto
termination
  by (relation "measure (\<lambda>(a, b). nat (b - a))") auto

function digits_above :: "int \<Rightarrow> int \<Rightarrow> nat" where
  "digits_above a c = (if c \<le> 0 \<or> a < c then 0 else Suc (digits_above a (10 * c)))"
  by pat_completeness auto
termination
  by (relation "measure (\<lambda>(a, c). nat (a - c + 1))") auto

declare digits_below.simps [simp del] digits_above.simps [simp del]

definition significand :: "nat \<Rightarrow> int \<times> int \<Rightarrow> int \<times> int" where
  "significand p x =
     (let (a, b) = x;
          down = digits_below a (10 ^ (p - 1) * b);
          up = digits_above a (10 ^ p * b);
          n = (2 * a * 10 ^ down + b * 10 ^ up) div (2 * b * 10 ^ up);
          e = int (p - 1) + int up - int down
      in if n = 10 ^ p then (10 ^ (p - 1), e + 1) else (n, e))"

definition exponential_notation :: "string \<Rightarrow> int \<Rightarrow> string" where
  "exponential_notation m e =
     take 1 m @ ''.'' @ drop 1 m @ ''e'' @ (if 0 \<le> e then ''+'' else ''-'') @ digits \<bar>e\<bar>"

definition fixed_notation :: "nat \<Rightarrow> string \<Rightarrow> int \<Rightarrow> string" where
  "fixed_notation p m e =
     (if e = int p - 1 then m
      else if 0 \<le> e then take (nat (e + 1)) m @ ''.'' @ drop (nat (e + 1)) m
      else ''0.'' @ replicate (nat (- (e + 1))) CHR ''0'' @ m)"

definition toPrecision :: "nat \<Rightarrow> int \<times> int \<Rightarrow> string" where
  "toPrecision p x =
     (if fst x = 0 then ''0.'' @ replicate (p - 1) CHR ''0''
      else
        let (n, e) = significand p x;
            m = digits n
        in if e < - 6 \<or> int p \<le> e then exponential_notation m e
           else fixed_notation p m e)"

section \<open>Duration formatting\<close>

definition nanosecondsPerMillisecond :: int where
  "nanosecondsPerMillisecond = 1000000"

definition oneMinute :: int where
  "oneMinute = 60"

definition oneHour :: int where
  "oneHour = 60 * 60"

text \<open>
  \<open>formatDuration\<close> takes a \<^verbatim>\<open>process.hrtime()\<close> result, a pair of whole seconds and
  nanoseconds. From the second branch on \<open>wholeSeconds\<close> is positive, where
  \<^verbatim>\<open>Math.floor(a / b)\<close> is \<open>a div b\<close> and \<^verbatim>\<open>a % b\<close> is \<open>a mod b\<close>.
\<close>

definition formatDuration :: "int \<times> int \<Rightarrow> string" where
  "formatDuration d =
     (let (wholeSeconds, nanoseconds) = d;
          milliseconds =
            toPrecision 6 (divide_double nanoseconds nanosecondsPerMillisecond) @ ''ms''
      in if wholeSeconds < 1 then milliseconds
         else if wholeSeconds < oneMinute
         then show_int wholeSeconds @ ''sec '' @ milliseconds
         else if wholeSeconds < oneHour
         then
           let minutes = wholeSeconds div oneMinute;
               remainingSeconds = wholeSeconds mod oneMinute
           in show_int minutes @ ''min '' @ show_int remainingSeconds @ ''sec '' @ milliseconds
         else
           let hours = wholeSeconds div oneHour;
               remainingMinutes = wholeSeconds mod oneHour div oneMinute;
               remainingSeconds = wholeSeconds mod oneHour mod oneMinute
           in show_int hours @ ''hr '' @ show_int remainingMinutes @ ''min ''
                @ show_int remainingSeconds @ ''sec '' @ milliseconds)"

section \<open>Values, errors and promises\<close>

text \<open>
  A JavaScript \<^verbatim>\<open>Error\<close> is its message. A value of the cached type \<^verbatim>\<open>T\<close> or of
  \<^verbatim>\<open>Params\<close> is a JavaScript value; its truthiness is what an \<^verbatim>\<open>if\<close> tests. Numbers
  are the integers (\<^verbatim>\<open>NaN\<close> and fractions are left out).
\<close>

datatype error = Error (message: string)

datatype jsval =
    JUndefined
  | JNull
  | JBool bool
  | JNum int
  | JStr string
  | JObj "(string \<times> jsval) list"

fun truthy :: "jsval \<Rightarrow> bool" where
  "truthy JUndefined = False"
| "truthy JNull = False"
| "truthy (JBool b) = b"
| "truthy (JNum n) = (n \<noteq> 0)"
| "truthy (JStr s) = (s \<noteq> [])"
| "truthy (JObj fields) = True"

text \<open>
  A promise is pending, fulfilled with a value or rejected with an error. The functions
  \<^verbatim>\<open>resolve\<close> and \<^verbatim>\<open>reject\<close> handed to a promise's executor settle it only while
  it is pending: a later call has no effect. \<open>Pending\<close> as the result of an operation
  means that its promise never settles.
\<close>

datatype 'a promise = Pending | Fulfilled 'a | Rejected error

definition resolve :: "'a \<Rightarrow> 'a promise \<Rightarrow> 'a promise" where
  "resolve v p = (case p of Pending \<Rightarrow> Fulfilled v | _ \<Rightarrow> p)"

definition reject :: "error \<Rightarrow> 'a promise \<Rightarrow> 'a promise" where
  "reject e p = (case p of Pending \<Rightarrow> Rejected e | _ \<Rightarrow> p)"

text \<open>
  \<^verbatim>\<open>await\<close> inside an \<^verbatim>\<open>async\<close> function with no \<^verbatim>\<open>try\<close> around it: the function goes
  on with the value of a fulfilled promise, rejects with the error of a rejected one, and
  never goes on when the promise stays pending.
\<close>

definition await :: "'a promise \<times> 'w \<Rightarrow> ('a \<Rightarrow> 'w \<Rightarrow> 'b promise \<times> 'w) \<Rightarrow> 'b promise \<times> 'w" where
  "await pw continue =
     (case pw of
        (Fulfilled v, w) \<Rightarrow> continue v w
      | (Rejected e, w) \<Rightarrow> (Rejected e, w)
      | (Pending, w) \<Rightarrow> (Pending, w))"

section \<open>The store, its clients and the observable world\<close>

text \<open>
  A \<^verbatim>\<open>RedisClient\<close> is identified by the diagnostic id that \<^verbatim>\<open>clientIds\<close> maps it to.
  The commands are the eight the pool sends; \<open>SET\<close> carries the seconds of its \<^verbatim>\<open>EX\<close>
  argument when it has one, \<open>PING\<close> its message when it has one.
\<close>

type_synonym client = nat

datatype command =
    PING "string option"
  | SET string string "int option"
  | GET string
  | DEL "string list"
  | HMSET string "string list"
  | HGETALL string
  | MULTI "string list list"
  | BATCH "string list list"

datatype reply =
    NullReply
  | BulkReply string
  | StatusReply string
  | IntegerReply int
  | ArrayReply "reply list"

datatype level = LogError | LogWarn | LogInfo | LogVerbose | LogDebug | LogSilly

text \<open>
  The trace records, in order, the calls the program makes on its collaborators: the
  pool's \<^verbatim>\<open>acquire\<close> (with its outcome) and \<^verbatim>\<open>release\<close>, a command handed to a client,
  the \<^verbatim>\<open>reject\<close> and \<^verbatim>\<open>resolve\<close> of the executor's promise, the logger (message and
  the error in its metadata) and the passthrough.
\<close>

datatype event =
    Acquire "client promise"
  | Release client
  | Send client command
  | Reject error
  | Resolve reply
  | Log level string "error option"
  | Passthrough jsval

text \<open>
  The world: the string keys of the store, each with its value and the expiry in seconds
  it was written with (time does not pass in this model, so no entry is ever evicted);
  the trace; the module's \<^verbatim>\<open>nextId\<close>; and the cache writes that were started and not
  awaited, each the key and the serialized value of a \<^verbatim>\<open>pool.set\<close> still to run.
\<close>

type_synonym keyspace = "string \<rightharpoonup> string \<times> int option"

record world =
  keyspace :: keyspace
  trace :: "event list"
  nextId :: nat
  detached :: "(string \<times> string) list"

definition emit :: "event \<Rightarrow> world \<Rightarrow> world" where
  "emit ev w = w\<lparr>trace := trace w @ [ev]\<rparr>"

text \<open>
  What the pool library, the transport and the server do during one operation of the
  pool is an input of the model: the outcome of \<^verbatim>\<open>pool.acquire()\<close>, the error the client
  passes to the command's callback when the command fails, and the reply to a command
  that acts outside the string keys (hashes, pipelines), which this model does not
  interpret. The client calls the callback of a command once.
\<close>

record exchange =
  acquired :: "client promise"
  failure :: "error option"
  payload :: reply

text \<open>
  The server on string keys: \<open>GET\<close> answers the value or nil, \<open>SET\<close> stores the value
  with the given expiry (and refuses an expiry that is not positive), \<open>DEL\<close> removes the
  keys and answers how many existed, \<open>PING\<close> answers its message.
\<close>

definition serve :: "command \<Rightarrow> reply \<Rightarrow> keyspace \<Rightarrow> (error + reply) \<times> keyspace" where
  "serve cmd other ks =
     (case cmd of
        PING None \<Rightarrow> (Inr (StatusReply ''PONG''), ks)
      | PING (Some m) \<Rightarrow> (Inr (BulkReply m), ks)
      | GET key \<Rightarrow> (Inr (case ks key of None \<Rightarrow> NullReply | Some (v, ex) \<Rightarrow> BulkReply v), ks)
      | SET key v None \<Rightarrow> (Inr (StatusReply ''OK''), ks(key \<mapsto> (v, None)))
      | SET key v (Some ex) \<Rightarrow>
          if ex \<le> 0 then (Inl (Error ''ERR invalid expire time in set''), ks)
          else (Inr (StatusReply ''OK''), ks(key \<mapsto> (v, Some ex)))
      | DEL keys \<Rightarrow>
          if keys = [] then (Inl (Error ''ERR wrong number of arguments for del command''), ks)
          else (Inr (IntegerReply (int (length (filter (\<lambda>k. ks k \<noteq> None) (remdups keys))))),
                ks |` (- set keys))
      | _ \<Rightarrow> (Inr other, ks))"

text \<open>
  A command handed to a client, and the arguments \<open>(error, results)\<close> the client then
  passes to the callback. A failed exchange leaves the keys as they were.
\<close>

definition send :: "exchange \<Rightarrow> client \<Rightarrow> command \<Rightarrow> world \<Rightarrow> (error option \<times> reply) \<times> world" where
  "send x client cmd w =
     (let w1 = emit (Send client cmd) w
      in case failure x of
           Some e \<Rightarrow> ((Some e, NullReply), w1)
         | None \<Rightarrow>
             (case serve cmd (payload x) (keyspace w1) of
                (Inl e, ks) \<Rightarrow> ((Some e, NullReply), w1\<lparr>keyspace := ks\<rparr>)
              | (Inr r, ks) \<Rightarrow> ((None, r), w1\<lparr>keyspace := ks\<rparr>)))"

text \<open>
  A method of the client can also throw when it is called, before anything is sent.
  \<^verbatim>\<open>client.multi\<close> and \<^verbatim>\<open>client.batch\<close> build the pipeline from their list at once: for
  every entry they take its first element as the name of a method and apply that method
  to the rest. An entry with no element names no method, and applying what the lookup
  returns is a \<^verbatim>\<open>TypeError\<close>. (An entry whose name is not a method of the client throws
  likewise; the names of the methods are not modelled.) The other six methods queue their
  command whatever strings they are given.
\<close>

definition throws :: "command \<Rightarrow> error option" where
  "throws cmd =
     (case cmd of
        MULTI commands \<Rightarrow>
          if [] \<in> set commands then Some (Error ''Cannot read property apply of undefined'')
          else None
      | BATCH commands \<Rightarrow>
          if [] \<in> set commands then Some (Error ''Cannot read property apply of undefined'')
          else None
      | _ \<Rightarrow> None)"

section \<open>The pool\<close>

record RedisPool =
  host :: string
  port :: int
  db :: int

definition acquire :: "exchange \<Rightarrow> world \<Rightarrow> client promise \<times> world" where
  "acquire x w = (acquired x, emit (Acquire (acquired x)) w)"

definition release :: "client \<Rightarrow> world \<Rightarrow> world" where
  "release client w = emit (Release client) w"

text \<open>
  The callback \<open>exec\<close> hands to the command runner: it releases the client, calls
  \<^verbatim>\<open>reject\<close> when there is an error, and calls \<^verbatim>\<open>resolve\<close> in either case.
\<close>

definition callback :: "client \<Rightarrow> error option \<Rightarrow> reply \<Rightarrow> reply promise \<times> world \<Rightarrow> reply promise \<times> world" where
  "callback client err results pw =
     (let (p, w) = pw;
          w = release client w;
          (p, w) = (case err of Some e \<Rightarrow> (reject e p, emit (Reject e) w) | None \<Rightarrow> (p, w))
      in (resolve results p, emit (Resolve results) w))"

text \<open>
  \<open>exec\<close> builds its promise with an \<^verbatim>\<open>async\<close> executor. When \<^verbatim>\<open>this.acquire()\<close> is
  rejected the executor throws, its own promise is dropped, and neither \<^verbatim>\<open>resolve\<close> nor
  \<^verbatim>\<open>reject\<close> is called: the promise \<open>exec\<close> returned stays pending. A command runner is
  the command it sends to the client it is given. \<^verbatim>\<open>run(client, callback)\<close> stands in no
  \<^verbatim>\<open>try\<close> either: when the client's method throws, the executor throws with it, the
  callback is never called, and the client that was acquired is not released.
\<close>

definition exec :: "(client \<Rightarrow> command) \<Rightarrow> exchange \<Rightarrow> world \<Rightarrow> reply promise \<times> world" where
  "exec run x w =
     (case acquire x w of
        (Fulfilled client, w1) \<Rightarrow>
          (case throws (run client) of
             Some e \<Rightarrow> (Pending, w1)
           | None \<Rightarrow>
               (let ((err, results), w2) = send x client (run client) w1
                in callback client err results (Pending, w2)))
      | (Rejected e, w1) \<Rightarrow> (Pending, w1)
      | (Pending, w1) \<Rightarrow> (Pending, w1))"

definition pool_ping :: "string option \<Rightarrow> exchange \<Rightarrow> world \<Rightarrow> reply promise \<times> world" where
  "pool_ping msg =
     exec (\<lambda>client.
       case msg of
         Some m \<Rightarrow> if m \<noteq> [] then PING (Some m) else PING (Some ''ping'')
       | None \<Rightarrow> PING (Some ''ping''))"

definition pool_set :: "string \<Rightarrow> string \<Rightarrow> int option \<Rightarrow> exchange \<Rightarrow> world \<Rightarrow> reply promise \<times> world" where
  "pool_set key v expiration =
     exec (\<lambda>client.
       case expiration of
         Some seconds \<Rightarrow> if seconds \<noteq> 0 then SET key v (Some seconds) else SET key v None
       | None \<Rightarrow> SET key v None)"

definition pool_get :: "string \<Rightarrow> exchange \<Rightarrow> world \<Rightarrow> reply promise \<times> world" where
  "pool_get key = exec (\<lambda>client. GET key)"

definition pool_del :: "string list \<Rightarrow> exchange \<Rightarrow> world \<Rightarrow> reply promise \<times> world" where
  "pool_del keys = exec (\<lambda>client. DEL keys)"

definition pool_hmset :: "string \<Rightarrow> string list \<Rightarrow> exchange \<Rightarrow> world \<Rightarrow> reply promise \<times> world" where
  "pool_hmset key vs = exec (\<lambda>client. HMSET key vs)"

definition pool_hgetall :: "string \<Rightarrow> exchange \<Rightarrow> world \<Rightarrow> reply promise \<times> world" where
  "pool_hgetall key = exec (\<lambda>client. HGETALL key)"

definition pool_multi :: "string list list \<Rightarrow> exchange \<Rightarrow> world \<Rightarrow> reply promise \<times> world" where
  "pool_multi commands = exec (\<lambda>client. MULTI commands)"

definition pool_batch :: "string list list \<Rightarrow> exchange \<Rightarrow> world \<Rightarrow> reply promise \<times> world" where
  "pool_batch commands = exec (\<lambda>client. BATCH commands)"

text \<open>
  \<open>healthcheck\<close> reads the clock three times; the two differences it formats,
  \<^verbatim>\<open>process.hrtime(start)\<close> after the acquisition and in the callback of the ping, are
  inputs. Its \<^verbatim>\<open>await this.acquire()\<close> stands outside any \<^verbatim>\<open>try\<close>. The threshold test
  \<^verbatim>\<open>duration[1] / 10e5 > 50\<close> is on the rational quotient, which the double division
  orders as the exact one does around \<open>50\<close>.
\<close>

record HealthcheckResult =
  available :: bool
  url :: string
  timeToAcquire :: "string option"
  duration :: "string option"
  warning :: "string option"
  info :: "string option"

definition healthcheck ::
  "RedisPool \<Rightarrow> exchange \<Rightarrow> (int \<times> int) \<times> (int \<times> int) \<Rightarrow> world \<Rightarrow> HealthcheckResult promise \<times> world" where
  "healthcheck pool x clock w =
     (let result =
            \<lparr>available = True,
             url = ''redis://'' @ host pool @ '':'' @ show_int (port pool) @ ''/'' @ show_int (db pool),
             timeToAcquire = None, duration = None, warning = None, info = None\<rparr>
      in await (acquire x w) (\<lambda>client w1.
           let (acquireTime, pingTime) = clock;
               ((err, results), w2) = send x client (PING None) w1;
               result = result\<lparr>duration := Some (formatDuration pingTime)\<rparr>;
               result = result\<lparr>timeToAcquire := Some (formatDuration acquireTime)\<rparr>;
               result =
                 (case err of
                    Some e \<Rightarrow> result\<lparr>available := False, info := Some (message e)\<rparr>
                  | None \<Rightarrow> result);
               result =
                 (if 0 < fst pingTime \<or> 50 < (of_int (snd pingTime) :: rat) / 1000000
                  then result\<lparr>warning := Some ''Connection slower than 50ms''\<rparr>
                  else result);
               w3 = release client w2
           in (Fulfilled result, w3)))"

section \<open>The connection factory\<close>

text \<open>
  \<open>create\<close> takes the next diagnostic id, opens a client and returns a promise with two
  listeners on the client. The events the transport then emits, in order, are an input.
  The flag \<open>fulfilled\<close> guards the \<^verbatim>\<open>reject\<close> of the error listener only; the ready
  listener calls \<^verbatim>\<open>resolve\<close> whenever it runs. The options given to \<^verbatim>\<open>createClient\<close>
  (endpoint, password, client options) configure the transport and are not modelled.
\<close>

datatype signal = ErrorEvent error | ReadyEvent

definition on_error :: "error \<Rightarrow> (bool \<times> client promise) \<times> world \<Rightarrow> (bool \<times> client promise) \<times> world" where
  "on_error e s =
     (let ((fulfilled, p), w) = s;
          w = emit (Log LogError ''Redis client encountered an error'' (Some e)) w
      in if \<not> fulfilled then ((True, reject e p), w) else ((fulfilled, p), w))"

definition on_ready :: "client \<Rightarrow> (bool \<times> client promise) \<times> world \<Rightarrow> (bool \<times> client promise) \<times> world" where
  "on_ready client s =
     (let ((fulfilled, p), w) = s;
          w = emit (Log LogDebug ''New redis client ready'' None) w
      in ((True, resolve client p), w))"

definition listen :: "client \<Rightarrow> (bool \<times> client promise) \<times> world \<Rightarrow> signal \<Rightarrow> (bool \<times> client promise) \<times> world" where
  "listen client s sig = (case sig of ErrorEvent e \<Rightarrow> on_error e s | ReadyEvent \<Rightarrow> on_ready client s)"

definition create :: "signal list \<Rightarrow> world \<Rightarrow> client promise \<times> world" where
  "create signals w =
     (let clientId = nextId w;
          w = w\<lparr>nextId := nextId w + 1\<rparr>;
          w = emit (Log LogDebug ''Creating new redis client'' None) w;
          client = clientId;
          ((fulfilled, p), w) = foldl (listen client) ((False, Pending), w) signals
      in (p, w))"

section \<open>The cache\<close>

text \<open>
  A \<open>RedisCache\<close> holds what its constructor copies from the options. The three
  serializers are the caller's functions and may throw; the passthrough returns a value
  or a promise, and a throw of it is a rejection.
\<close>

record RedisCache =
  ttl :: "int option"
  serializeKey :: "jsval \<Rightarrow> error + string"
  serializeValue :: "jsval \<Rightarrow> error + string"
  deserializeValue :: "string \<Rightarrow> error + jsval"
  passthrough :: "jsval \<Rightarrow> jsval promise"

text \<open>
  \<^verbatim>\<open>pool.get\<close> answers a string or \<^verbatim>\<open>null\<close>: \<open>GET\<close> is answered by a bulk string or by
  nil. The string is truthy when it is not empty.
\<close>

definition cache_get :: "RedisCache \<Rightarrow> exchange \<Rightarrow> string \<Rightarrow> world \<Rightarrow> jsval promise \<times> world" where
  "cache_get c x key w =
     await (pool_get key x w) (\<lambda>result w1.
       case result of
         BulkReply s \<Rightarrow>
           if s \<noteq> [] then
             (case deserializeValue c s of
                Inl e \<Rightarrow> (Rejected e, w1)
              | Inr v \<Rightarrow> (Fulfilled v, w1))
           else (Fulfilled JUndefined, w1)
       | _ \<Rightarrow> (Fulfilled JUndefined, w1))"

text \<open>
  \<open>proxy\<close> calls \<^verbatim>\<open>this.set(key, value)\<close> and does not await it. An \<^verbatim>\<open>async\<close> function
  runs up to its first \<^verbatim>\<open>await\<close> when it is called, so \<open>set\<close> is modelled in two
  parts. \<open>cache_set_call\<close> is the part that runs inside the call: it serializes the value,
  logs the warning when that throws, and otherwise leaves the \<^verbatim>\<open>pool.set\<close> it started
  among the detached writes. \<open>cache_set_settle\<close> is the rest, run when the exchange with
  the store takes place: the \<^verbatim>\<open>pool.set\<close> and, when that is rejected, the warning. The
  \<^verbatim>\<open>acquire\<close> that this \<^verbatim>\<open>pool.set\<close> calls while still inside the call of \<open>set\<close> is
  recorded together with its outcome, in \<open>cache_set_settle\<close>; nothing stands between
  the two in the trace.
\<close>

definition cache_set_call :: "RedisCache \<Rightarrow> string \<Rightarrow> jsval \<Rightarrow> world \<Rightarrow> world" where
  "cache_set_call c key v w =
     (case serializeValue c v of
        Inl e \<Rightarrow> emit (Log LogWarn ''Error occured while updating a value in cache'' (Some e)) w
      | Inr serialized \<Rightarrow> w\<lparr>detached := detached w @ [(key, serialized)]\<rparr>)"

definition cache_set_settle :: "RedisCache \<Rightarrow> exchange \<Rightarrow> string \<Rightarrow> string \<Rightarrow> world \<Rightarrow> world" where
  "cache_set_settle c x key serialized w =
     (case pool_set key serialized (ttl c) x w of
        (Rejected e, w1) \<Rightarrow>
          emit (Log LogWarn ''Error occured while updating a value in cache'' (Some e)) w1
      | (Fulfilled r, w1) \<Rightarrow> w1
      | (Pending, w1) \<Rightarrow> w1)"

text \<open>The oldest detached write meets the store.\<close>

definition settle_detached :: "RedisCache \<Rightarrow> exchange \<Rightarrow> world \<Rightarrow> world" where
  "settle_detached c x w =
     (case detached w of
        [] \<Rightarrow> w
      | (key, serialized) # rest \<Rightarrow> cache_set_settle c x key serialized (w\<lparr>detached := rest\<rparr>))"

definition invalidate :: "RedisCache \<Rightarrow> exchange \<Rightarrow> jsval \<Rightarrow> world \<Rightarrow> unit promise \<times> world" where
  "invalidate c x params w =
     (case serializeKey c params of
        Inl e \<Rightarrow> (Rejected e, w)
      | Inr key \<Rightarrow> await (pool_del [key] x w) (\<lambda>deleted w1. (Fulfilled (), w1)))"

definition call_passthrough :: "RedisCache \<Rightarrow> jsval \<Rightarrow> world \<Rightarrow> jsval promise \<times> world" where
  "call_passthrough c params w = (passthrough c params, emit (Passthrough params) w)"

definition proxy :: "RedisCache \<Rightarrow> exchange \<Rightarrow> jsval \<Rightarrow> world \<Rightarrow> jsval promise \<times> world" where
  "proxy c x params w =
     (case serializeKey c params of
        Inl e \<Rightarrow> (Rejected e, w)
      | Inr key \<Rightarrow>
          await (cache_get c x key w) (\<lambda>fromCache w1.
            if truthy fromCache then (Fulfilled fromCache, w1)
            else
              await (call_passthrough c params w1) (\<lambda>v w2.
                (Fulfilled v, cache_set_call c key v w2))))"

section \<open>Reading the trace\<close>

fun acquired_client :: "event \<Rightarrow> client option" where
  "acquired_client (Acquire (Fulfilled client)) = Some client"
| "acquired_client ev = None"

definition connections_acquired :: "world \<Rightarrow> client list" where
  "connections_acquired w = List.map_filter acquired_client (trace w)"

fun released_client :: "event \<Rightarrow> client option" where
  "released_client (Release client) = Some client"
| "released_client ev = None"

definition connections_released :: "world \<Rightarrow> client list" where
  "connections_released w = List.map_filter released_client (trace w)"

fun is_passthrough :: "event \<Rightarrow> bool" where
  "is_passthrough (Passthrough params) = True"
| "is_passthrough ev = False"

definition passthrough_calls :: "world \<Rightarrow> nat" where
  "passthrough_calls w = length (filter is_passthrough (trace w))"

fun sent_command :: "event \<Rightarrow> command option" where
  "sent_command (Send client cmd) = Some cmd"
| "sent_command ev = None"

definition commands_sent :: "world \<Rightarrow> command list" where
  "commands_sent w = List.map_filter sent_command (trace w)"

section \<open>Concrete inputs\<close>

text \<open>
  A fresh process with an empty store; an exchange in which everything works, one in
  which the command fails on the connection, and one in which no connection can be
  acquired; a pool; a cache of feature flags that stores booleans as their JSON text,
  whose passthrough knows three flags; and a store that holds \<open>false\<close> for a flag
  which the passthrough reports as \<open>true\<close>.
\<close>

definition empty_world :: world where
  "empty_world = \<lparr>keyspace = Map.empty, trace = [], nextId = 1, detached = []\<rparr>"

definition healthy :: exchange where
  "healthy = \<lparr>acquired = Fulfilled 1, failure = None, payload = NullReply\<rparr>"

definition broken :: exchange where
  "broken = \<lparr>acquired = Fulfilled 1, failure = Some (Error ''ECONNRESET''), payload = NullReply\<rparr>"

definition unreachable :: exchange where
  "unreachable =
     \<lparr>acquired = Rejected (Error ''ResourceRequest timed out''), failure = None,
      payload = NullReply\<rparr>"

definition localhost :: RedisPool where
  "localhost = \<lparr>host = ''localhost'', port = 6379, db = 0\<rparr>"

definition flags :: RedisCache where
  "flags =
     \<lparr>ttl = Some 60,
      serializeKey =
        (\<lambda>params. case params of
           JStr name \<Rightarrow> Inr (''flag:'' @ name)
         | _ \<Rightarrow> Inl (Error ''the key is not a string'')),
      serializeValue =
        (\<lambda>v. case v of
           JBool b \<Rightarrow> Inr (if b then ''true'' else ''false'')
         | _ \<Rightarrow> Inl (Error ''the value is not a boolean'')),
      deserializeValue =
        (\<lambda>s. if s = ''true'' then Inr (JBool True)
             else if s = ''false'' then Inr (JBool False)
             else Inl (Error ''Unexpected token'')),
      passthrough =
        (\<lambda>params. if params = JStr ''beta'' then Fulfilled (JBool True)
                  else if params = JStr ''legacy'' then Fulfilled (JBool False)
                  else if params = JStr ''seats'' then Fulfilled (JNum 3)
                  else Rejected (Error ''unknown flag''))\<rparr>"

definition beta_cached_off :: world where
  "beta_cached_off =
     \<lparr>keyspace = [''flag:beta'' \<mapsto> (''false'', Some 60)], trace = [], nextId = 1,
      detached = []\<rparr>"

section \<open>Durations are rendered with six significant digits\<close>







lemma digit_value_digit: "d < 10 \<Longrightarrow> digit_value (digit d) = int d"
proof -
  assume "d < 10"
  then have "d \<in> {0, 1, 2, 3, 4, 5, 6, 7, 8, 9}"
    by auto
  then show ?thesis
    by (auto simp: digit_def digit_value_def)
qed

lemma digit_is_decimal: "d < 10 \<Longrightarrow> digit d \<in> set ''0123456789''"
  unfolding digit_def by (rule nth_mem) simp

lemma numeral_value_snoc: "numeral_value (s @ [c]) = 10 * numeral_value s + digit_value c"
  by (simp add: numeral_value_def)

lemma numeral_value_digits: "0 \<le> n \<Longrightarrow> numeral_value (digits n) = n"
proof (induction n rule: digits.induct)
  case (1 n)
  show ?case
  proof (cases "n < 10")
    case True
    then have "nat n < 10"
      by simp
    then have "digit_value (digit (nat n)) = int (nat n)"
      by (rule digit_value_digit)
    then show ?thesis
      using True "1.prems" by (simp add: digits.simps [of n] numeral_value_def)
  next
    case False
    have "nat (n mod 10) < 10"
      by simp
    then have d: "digit_value (digit (nat (n mod 10))) = int (nat (n mod 10))"
      by (rule digit_value_digit)
    have "numeral_value (digits (n div 10)) = n div 10"
      using "1.IH" [OF False] "1.prems" by simp
    then show ?thesis
      using False d by (simp add: digits.simps [of n] numeral_value_snoc)
  qed
qed

lemma digits_are_decimal: "0 \<le> n \<Longrightarrow> set (digits n) \<subseteq> set ''0123456789''"
proof (induction n rule: digits.induct)
  case (1 n)
  show ?case
  proof (cases "n < 10")
    case True
    then have "nat n < 10"
      by simp
    then have "digit (nat n) \<in> set ''0123456789''"
      by (rule digit_is_decimal)
    then show ?thesis
      using True by (simp add: digits.simps [of n])
  next
    case False
    have "nat (n mod 10) < 10"
      by simp
    then have d: "digit (nat (n mod 10)) \<in> set ''0123456789''"
      by (rule digit_is_decimal)
    have "set (digits (n div 10)) \<subseteq> set ''0123456789''"
      using "1.IH" [OF False] "1.prems" by simp
    then show ?thesis
      using False d by (simp add: digits.simps [of n])
  qed
qed

lemma show_int_reads:
  "0 \<le> n \<Longrightarrow> numeral_value (show_int n) = n \<and> set (show_int n) \<subseteq> set ''0123456789''"
  using numeral_value_digits [of n] digits_are_decimal [of n] by (simp add: show_int_def)








section \<open>Promises and the executor\<close>

lemma await_simps [simp]:
  "await (Fulfilled v, w) k = k v w"
  "await (Rejected e, w) k = (Rejected e, w)"
  "await (Pending, w) k = (Pending, w)"
  by (simp_all add: await_def)

lemma throws_simps [simp]:
  "throws (PING msg) = None" "throws (SET key v ex) = None" "throws (GET key) = None"
  "throws (DEL keys) = None" "throws (HMSET key vs) = None" "throws (HGETALL key) = None"
  by (simp_all add: throws_def)

lemma exec_failed:
  "acquired x = Fulfilled client \<Longrightarrow> failure x = Some e \<Longrightarrow> throws (run client) = None \<Longrightarrow>
   exec run x w =
     (Rejected e,
      w\<lparr>trace := trace w @ [Acquire (Fulfilled client), Send client (run client),
              Release client, Reject e, Resolve NullReply]\<rparr>)"
  by (simp add: exec_def acquire_def send_def callback_def release_def emit_def resolve_def
      reject_def)

lemma exec_refused:
  "acquired x = Fulfilled client \<Longrightarrow> failure x = None \<Longrightarrow>
   serve (run client) (payload x) (keyspace w) = (Inl e, ks) \<Longrightarrow>
   throws (run client) = None \<Longrightarrow>
   exec run x w =
     (Rejected e,
      w\<lparr>keyspace := ks,
        trace := trace w @ [Acquire (Fulfilled client), Send client (run client),
              Release client, Reject e, Resolve NullReply]\<rparr>)"
  by (simp add: exec_def acquire_def send_def callback_def release_def emit_def resolve_def
      reject_def)

lemma exec_served:
  "acquired x = Fulfilled client \<Longrightarrow> failure x = None \<Longrightarrow>
   serve (run client) (payload x) (keyspace w) = (Inr r, ks) \<Longrightarrow>
   throws (run client) = None \<Longrightarrow>
   exec run x w =
     (Fulfilled r,
      w\<lparr>keyspace := ks,
        trace := trace w @ [Acquire (Fulfilled client), Send client (run client),
              Release client, Resolve r]\<rparr>)"
  by (simp add: exec_def acquire_def send_def callback_def release_def emit_def resolve_def
      reject_def)

lemma exec_not_acquired:
  "acquired x = Rejected e \<or> acquired x = Pending \<Longrightarrow>
   exec run x w = (Pending, w\<lparr>trace := trace w @ [Acquire (acquired x)]\<rparr>)"
  by (auto simp: exec_def acquire_def emit_def)

lemma exec_thrown:
  "acquired x = Fulfilled client \<Longrightarrow> throws (run client) = Some e \<Longrightarrow>
   exec run x w = (Pending, w\<lparr>trace := trace w @ [Acquire (Fulfilled client)]\<rparr>)"
  by (simp add: exec_def acquire_def emit_def)

lemma exec_trace:
  assumes "acquired x = Fulfilled client" and quiet: "throws (run client) = None"
  shows "\<exists>err results.
           trace (snd (exec run x w)) =
             trace w @ [Acquire (Fulfilled client), Send client (run client), Release client]
               @ (case err of Some e \<Rightarrow> [Reject e, Resolve results] | None \<Rightarrow> [Resolve results])
         \<and> fst (exec run x w) = (case err of Some e \<Rightarrow> Rejected e | None \<Rightarrow> Fulfilled results)"
proof (cases "failure x")
  case (Some e)
  show ?thesis
    by (rule exI [of _ "Some e"], rule exI [of _ NullReply])
       (simp add: exec_failed [of x client e run w] assms Some)
next
  case None
  obtain a ks where s: "serve (run client) (payload x) (keyspace w) = (a, ks)"
    by (cases "serve (run client) (payload x) (keyspace w)")
  show ?thesis
  proof (cases a)
    case (Inl e)
    show ?thesis
      by (rule exI [of _ "Some e"], rule exI [of _ NullReply])
         (simp add: exec_refused [of x client run w e ks] assms None s [unfolded Inl])
  next
    case (Inr r)
    show ?thesis
      by (rule exI [of _ None], rule exI [of _ r])
         (simp add: exec_served [of x client run w r ks] assms None s [unfolded Inr])
  qed
qed

lemma commands_sent_exec:
  "commands_sent (snd (exec run x w)) =
     commands_sent w
       @ (case acquired x of
            Fulfilled client \<Rightarrow> if throws (run client) = None then [run client] else []
          | _ \<Rightarrow> [])"
proof (cases "acquired x")
  case Pending
  then show ?thesis
    by (simp add: exec_not_acquired commands_sent_def List.map_filter_def)
next
  case (Rejected e)
  then show ?thesis
    by (simp add: exec_not_acquired commands_sent_def List.map_filter_def)
next
  case (Fulfilled client)
  show ?thesis
  proof (cases "throws (run client)")
    case (Some e)
    then show ?thesis
      using Fulfilled
      by (simp add: exec_thrown [where run = run, OF Fulfilled Some] commands_sent_def List.map_filter_def)
  next
    case None
    obtain err results where
      "trace (snd (exec run x w)) =
         trace w @ [Acquire (Fulfilled client), Send client (run client), Release client]
           @ (case err of Some e \<Rightarrow> [Reject e, Resolve results] | None \<Rightarrow> [Resolve results])"
      using exec_trace [where run = run, OF Fulfilled None] by blast
    then show ?thesis
      using Fulfilled None by (cases err) (simp_all add: commands_sent_def List.map_filter_def)
  qed
qed


lemma pool_commands_run_exec:
  "(\<exists>run. pool_ping msg = exec run) \<and> (\<exists>run. pool_set key v expiration = exec run)
   \<and> (\<exists>run. pool_get key = exec run) \<and> (\<exists>run. pool_del keys = exec run)
   \<and> (\<exists>run. pool_hmset key vs = exec run) \<and> (\<exists>run. pool_hgetall key = exec run)
   \<and> (\<exists>run. pool_multi commands = exec run) \<and> (\<exists>run. pool_batch commands = exec run)"
  unfolding pool_ping_def pool_set_def pool_get_def pool_del_def pool_hmset_def pool_hgetall_def
    pool_multi_def pool_batch_def
  by blast

lemma exec_releases_when_called_back:
  assumes "acquired x = Fulfilled client" and "throws (run client) = None"
  shows "connections_acquired (snd (exec run x w)) = connections_acquired w @ [client]
       \<and> connections_released (snd (exec run x w)) = connections_released w @ [client]
       \<and> commands_sent (snd (exec run x w)) = commands_sent w @ [run client]
       \<and> (\<exists>err results.
             trace (snd (exec run x w)) =
               trace w @ [Acquire (Fulfilled client), Send client (run client), Release client]
                 @ (case err of Some e \<Rightarrow> [Reject e, Resolve results] | None \<Rightarrow> [Resolve results])
           \<and> fst (exec run x w) = (case err of Some e \<Rightarrow> Rejected e | None \<Rightarrow> Fulfilled results))"
proof -
  obtain err results where t:
    "trace (snd (exec run x w)) =
       trace w @ [Acquire (Fulfilled client), Send client (run client), Release client]
         @ (case err of Some e \<Rightarrow> [Reject e, Resolve results] | None \<Rightarrow> [Resolve results])"
    and r: "fst (exec run x w) = (case err of Some e \<Rightarrow> Rejected e | None \<Rightarrow> Fulfilled results)"
    using exec_trace [where run = run, OF assms] by blast
  have "connections_acquired (snd (exec run x w)) = connections_acquired w @ [client]"
    and "connections_released (snd (exec run x w)) = connections_released w @ [client]"
    using t by (cases err; simp add: connections_acquired_def connections_released_def
        List.map_filter_def)+
  then show ?thesis
    using t r assms by (auto simp: commands_sent_exec)
qed

text \<open>
  C3. The callback releases the connection on both of its paths, the error and the reply
  (\<open>exec_releases_when_called_back\<close>), but \<open>exec\<close> releases nowhere else. When the
  client's method throws inside the command runner, as \<^verbatim>\<open>client.multi\<close> does on a list
  with an empty entry, the connection that was acquired is never released and the promise
  of \<open>exec\<close> never settles: no error is delivered and the connection is lost to the pool.
\<close>

theorem throwing_runner_leaks_the_connection:
  "throws (MULTI [[]]) = Some (Error ''Cannot read property apply of undefined'')
   \<and> fst (pool_multi [[]] healthy empty_world) = Pending
   \<and> connections_acquired (snd (pool_multi [[]] healthy empty_world)) = [1]
   \<and> connections_released (snd (pool_multi [[]] healthy empty_world)) = []
   \<and> trace (snd (pool_multi [[]] healthy empty_world)) = [Acquire (Fulfilled 1)]"
  by (simp add: pool_multi_def throws_def exec_def acquire_def emit_def healthy_def
      empty_world_def connections_acquired_def connections_released_def List.map_filter_def)

section \<open>The connection factory settles once\<close>

lemma settled_stays:
  "p \<noteq> Pending \<Longrightarrow> snd (fst (foldl (listen client) ((f, p), w) signals)) = p"
proof (induction signals arbitrary: f w)
  case Nil
  then show ?case by simp
next
  case (Cons s signals)
  then show ?case
    by (cases s; cases p)
       (simp_all add: listen_def on_error_def on_ready_def resolve_def reject_def Let_def)
qed

text \<open>
  C7. The promise \<open>create\<close> returns is settled by the first event of the transport and by
  no later one: it is pending while there is no event, fulfilled with the new client
  (the one with the id taken from \<open>nextId\<close>) when the first event is ready, and rejected
  with the error when the first event is an error, whatever events follow.
\<close>

theorem create_first_event_wins:
  "fst (create [] w) = Pending
   \<and> fst (create (ReadyEvent # later) w) = Fulfilled (nextId w)
   \<and> fst (create (ErrorEvent e # later) w) = Rejected e"
  by (simp add: create_def Let_def split_beta listen_def on_error_def on_ready_def resolve_def
      reject_def settled_stays emit_def)

section \<open>The cache: reads\<close>

lemmas model_defs =
  proxy_def cache_get_def pool_get_def pool_set_def pool_del_def cache_set_call_def throws_def
  cache_set_settle_def settle_detached_def invalidate_def call_passthrough_def exec_def
  acquire_def send_def serve_def callback_def release_def emit_def resolve_def reject_def
  passthrough_calls_def commands_sent_def List.map_filter_def
  empty_world_def healthy_def broken_def unreachable_def flags_def beta_cached_off_def

lemma serve_GET:
  "serve (GET key) other ks =
     (Inr (case ks key of None \<Rightarrow> NullReply | Some (v, ex) \<Rightarrow> BulkReply v), ks)"
  by (simp add: serve_def)

lemma pool_get_healthy:
  assumes "acquired x = Fulfilled client" "failure x = None"
  shows "pool_get key x w =
     (Fulfilled (case keyspace w key of None \<Rightarrow> NullReply | Some (v, ex) \<Rightarrow> BulkReply v),
      w\<lparr>trace := trace w @ [Acquire (Fulfilled client), Send client (GET key), Release client,
          Resolve (case keyspace w key of None \<Rightarrow> NullReply | Some (v, ex) \<Rightarrow> BulkReply v)]\<rparr>)"
  unfolding pool_get_def
  by (simp add: exec_served [OF assms serve_GET])

lemma passthrough_calls_exec: "passthrough_calls (snd (exec run x w)) = passthrough_calls w"
proof (cases "acquired x")
  case Pending
  then show ?thesis
    by (simp add: exec_not_acquired passthrough_calls_def)
next
  case (Rejected e)
  then show ?thesis
    by (simp add: exec_not_acquired passthrough_calls_def)
next
  case (Fulfilled client)
  show ?thesis
  proof (cases "throws (run client)")
    case (Some e)
    then show ?thesis
      by (simp add: exec_thrown [where run = run, OF Fulfilled Some] passthrough_calls_def)
  next
    case None
    obtain err results where
      "trace (snd (exec run x w)) =
         trace w @ [Acquire (Fulfilled client), Send client (run client), Release client]
           @ (case err of Some e \<Rightarrow> [Reject e, Resolve results] | None \<Rightarrow> [Resolve results])"
      using exec_trace [where run = run, OF Fulfilled None] by blast
    then show ?thesis
      by (cases err) (simp_all add: passthrough_calls_def)
  qed
qed

lemma passthrough_calls_cache_get:
  "passthrough_calls (snd (cache_get c x key w)) = passthrough_calls w"
  using passthrough_calls_exec [of "\<lambda>client. GET key" x w]
  by (cases "exec (\<lambda>client. GET key) x w")
     (auto simp: cache_get_def pool_get_def await_def split: promise.splits reply.splits sum.splits)

lemma passthrough_calls_cache_set_call:
  "passthrough_calls (cache_set_call c key v w) = passthrough_calls w"
  by (simp add: cache_set_call_def emit_def passthrough_calls_def split: sum.splits)

lemma proxy_read_not_fulfilled:
  assumes "serializeKey c params = Inr key"
    and "\<And>cached. fst (cache_get c x key w) \<noteq> Fulfilled cached"
  shows "proxy c x params w = cache_get c x key w"
  using assms by (cases "cache_get c x key w"; cases "fst (cache_get c x key w)")
    (auto simp: proxy_def)

lemma proxy_hit:
  assumes "serializeKey c params = Inr key"
    and "cache_get c x key w = (Fulfilled cached, w1)" and "truthy cached"
  shows "proxy c x params w = (Fulfilled cached, w1)"
  using assms by (simp add: proxy_def)

lemma proxy_miss:
  assumes "serializeKey c params = Inr key"
    and "cache_get c x key w = (Fulfilled cached, w1)" and "\<not> truthy cached"
  shows "proxy c x params w =
           await (passthrough c params, emit (Passthrough params) w1)
             (\<lambda>v w2. (Fulfilled v, cache_set_call c key v w2))"
  using assms by (simp add: proxy_def call_passthrough_def)

lemma proxy_miss_outcome:
  assumes "serializeKey c params = Inr key"
    and "cache_get c x key w = (Fulfilled cached, w1)" and "\<not> truthy cached"
  shows "fst (proxy c x params w) = passthrough c params"
    and "passthrough_calls (snd (proxy c x params w)) = passthrough_calls w + 1"
  using passthrough_calls_cache_get [of c x key w] assms(2)
  by (cases "passthrough c params";
      simp add: proxy_miss [OF assms] passthrough_calls_cache_set_call;
      simp add: emit_def passthrough_calls_def)+

text \<open>
  C1 (as amended). The read is awaited with no \<^verbatim>\<open>try\<close> around it. When the key
  serializer returns a key and the cached read is rejected, \<open>proxy\<close> ends as the read
  ended, rejected with the read's error, and the passthrough is not called. A \<open>proxy\<close>
  call is rejected with an error exactly when the cached read is rejected with it, or the
  read misses and the passthrough is rejected with it.
\<close>

theorem proxy_fails_with_the_read:
  assumes "serializeKey c params = Inr key"
  shows "(fst (cache_get c x key w) = Rejected e \<longrightarrow>
            proxy c x params w = cache_get c x key w
          \<and> passthrough_calls (snd (proxy c x params w)) = passthrough_calls w)
       \<and> (fst (proxy c x params w) = Rejected e \<longleftrightarrow>
            fst (cache_get c x key w) = Rejected e
          \<or> (\<exists>cached. fst (cache_get c x key w) = Fulfilled cached \<and> \<not> truthy cached
                \<and> passthrough c params = Rejected e))"
proof (cases "fst (cache_get c x key w)")
  case Pending
  then show ?thesis
    by (simp add: proxy_read_not_fulfilled [OF assms])
next
  case (Rejected e')
  then show ?thesis
    by (simp add: proxy_read_not_fulfilled [OF assms] passthrough_calls_cache_get)
next
  case (Fulfilled cached)
  then obtain w1 where g: "cache_get c x key w = (Fulfilled cached, w1)"
    by (cases "cache_get c x key w") simp
  show ?thesis
  proof (cases "truthy cached")
    case True
    then show ?thesis
      using Fulfilled by (simp add: proxy_hit [OF assms g])
  next
    case False
    then show ?thesis
      using Fulfilled proxy_miss_outcome(1) [OF assms g False] by simp
  qed
qed

theorem proxy_fails_with_the_read_witness:
  "serializeKey flags (JStr ''beta'') = Inr ''flag:beta''
   \<and> fst (cache_get flags broken ''flag:beta'' empty_world) = Rejected (Error ''ECONNRESET'')
   \<and> proxy flags broken (JStr ''beta'') empty_world = cache_get flags broken ''flag:beta'' empty_world
   \<and> passthrough_calls (snd (proxy flags broken (JStr ''beta'') empty_world)) =
       passthrough_calls empty_world
   \<and> fst (proxy flags broken (JStr ''beta'') empty_world) = Rejected (Error ''ECONNRESET'')"
  using proxy_fails_with_the_read
          [of flags "JStr ''beta''" "''flag:beta''" broken empty_world "Error ''ECONNRESET''"]
  by (simp add: model_defs)

text \<open>
  C1 as stated fails: on the flag cache, with a command that breaks on the connection,
  the passthrough would succeed, yet the call is rejected with the error of the read and
  the passthrough is never called.
\<close>

theorem proxy_read_failure_counterexample:
  "passthrough flags (JStr ''beta'') = Fulfilled (JBool True)
   \<and> fst (cache_get flags broken ''flag:beta'' empty_world) = Rejected (Error ''ECONNRESET'')
   \<and> fst (proxy flags broken (JStr ''beta'') empty_world) = Rejected (Error ''ECONNRESET'')
   \<and> passthrough_calls (snd (proxy flags broken (JStr ''beta'') empty_world)) = 0"
  by (simp add: model_defs)

text \<open>
  C9. When the store answers the read with a non-empty string that deserializes to a
  falsy value, \<open>proxy\<close> treats it as a miss: it calls the passthrough once and its
  outcome is the passthrough's, not the cached value.
\<close>

theorem falsy_cached_value_is_a_miss:
  assumes "serializeKey c params = Inr key"
    and "acquired x = Fulfilled client" and "failure x = None"
    and "keyspace w key = Some (s, ex)" and "s \<noteq> []"
    and "deserializeValue c s = Inr cached" and "\<not> truthy cached"
  shows "fst (proxy c x params w) = passthrough c params
       \<and> passthrough_calls (snd (proxy c x params w)) = passthrough_calls w + 1"
proof -
  obtain w1 where g: "cache_get c x key w = (Fulfilled cached, w1)"
    using assms(4-6) by (simp add: cache_get_def pool_get_healthy [OF assms(2,3)])
  show ?thesis
    using proxy_miss_outcome [OF assms(1) g assms(7)] by simp
qed

theorem falsy_cached_value_is_a_miss_witness:
  "serializeKey flags (JStr ''beta'') = Inr ''flag:beta''
   \<and> acquired healthy = Fulfilled 1 \<and> failure healthy = None
   \<and> keyspace beta_cached_off ''flag:beta'' = Some (''false'', Some 60) \<and> ''false'' \<noteq> []
   \<and> deserializeValue flags ''false'' = Inr (JBool False) \<and> \<not> truthy (JBool False)
   \<and> fst (proxy flags healthy (JStr ''beta'') beta_cached_off) = Fulfilled (JBool True)
   \<and> passthrough_calls (snd (proxy flags healthy (JStr ''beta'') beta_cached_off)) =
       passthrough_calls beta_cached_off + 1"
proof -
  have "fst (proxy flags healthy (JStr ''beta'') beta_cached_off) = passthrough flags (JStr ''beta'')
      \<and> passthrough_calls (snd (proxy flags healthy (JStr ''beta'') beta_cached_off)) =
          passthrough_calls beta_cached_off + 1"
    by (rule falsy_cached_value_is_a_miss
              [of flags "JStr ''beta''" "''flag:beta''" healthy 1 beta_cached_off "''false''"
                  "Some 60" "JBool False"])
       (simp_all add: flags_def healthy_def beta_cached_off_def)
  then show ?thesis
    by (simp add: flags_def healthy_def beta_cached_off_def)
qed

section \<open>The cache: the write after a miss\<close>

lemma serve_SET_plain:
  "serve (SET key v None) other ks = (Inr (StatusReply ''OK''), ks(key \<mapsto> (v, None)))"
  by (simp add: serve_def)

lemma serve_SET_expiring:
  "0 < seconds \<Longrightarrow>
   serve (SET key v (Some seconds)) other ks =
     (Inr (StatusReply ''OK''), ks(key \<mapsto> (v, Some seconds)))"
  by (simp add: serve_def)

lemma serve_DEL:
  "serve (DEL [key]) other ks =
     (Inr (IntegerReply (int (length (filter (\<lambda>k. ks k \<noteq> None) [key])))), ks |` (- {key}))"
  by (simp add: serve_def)

lemma serve_refusal_keeps_keys:
  "serve cmd other ks = (Inl e, ks') \<Longrightarrow> ks' = ks"
  by (cases cmd) (auto simp: serve_def split: option.splits if_splits)

lemma exec_rejected_keeps_keys:
  assumes "fst (exec run x w) = Rejected e"
  shows "keyspace (snd (exec run x w)) = keyspace w"
proof (cases "acquired x")
  case Pending
  then show ?thesis by (simp add: exec_not_acquired)
next
  case (Rejected e')
  then show ?thesis by (simp add: exec_not_acquired)
next
  case (Fulfilled client)
  show ?thesis
  proof (cases "throws (run client)")
    case (Some thrown)
    then show ?thesis
      using assms by (simp add: exec_thrown [where run = run, OF Fulfilled Some])
  next
    case quiet: None
    show ?thesis
    proof (cases "failure x")
      case (Some e')
      then show ?thesis by (simp add: exec_failed [where run = run, OF Fulfilled Some quiet])
    next
      case None
      obtain a ks where s: "serve (run client) (payload x) (keyspace w) = (a, ks)"
        by (cases "serve (run client) (payload x) (keyspace w)")
      show ?thesis
      proof (cases a)
        case (Inl e')
        have "ks = keyspace w"
          using s Inl by (simp add: serve_refusal_keeps_keys)
        then show ?thesis
          by (simp add: exec_refused [of x client run w e' ks] Fulfilled None quiet s [unfolded Inl])
      next
        case (Inr r)
        then show ?thesis
          using assms by (simp add: exec_served [of x client run w r ks] Fulfilled None quiet s [unfolded Inr])
      qed
    qed
  qed
qed

lemma pool_set_rejected_keeps_keys:
  "fst (pool_set key serialized expiration x w) = Rejected e \<Longrightarrow>
   keyspace (snd (pool_set key serialized expiration x w)) = keyspace w"
  unfolding pool_set_def by (rule exec_rejected_keeps_keys)

lemma cache_set_settle_rejected:
  assumes "fst (pool_set key serialized (ttl c) x w) = Rejected e"
  shows "cache_set_settle c x key serialized w =
           emit (Log LogWarn ''Error occured while updating a value in cache'' (Some e))
             (snd (pool_set key serialized (ttl c) x w))"
  using assms
  by (cases "pool_set key serialized (ttl c) x w") (simp add: cache_set_settle_def)

lemma cache_set_settle_rejected_keys:
  assumes "fst (pool_set key serialized (ttl c) x w) = Rejected e"
  shows "keyspace (cache_set_settle c x key serialized w) = keyspace w"
  by (simp add: cache_set_settle_rejected [OF assms] emit_def
      pool_set_rejected_keeps_keys [OF assms])

lemma settle_detached_rejected:
  assumes "detached w = (key, serialized) # later"
    and "fst (pool_set key serialized (ttl c) x (w\<lparr>detached := later\<rparr>)) = Rejected e"
  shows "settle_detached c x w =
           emit (Log LogWarn ''Error occured while updating a value in cache'' (Some e))
             (snd (pool_set key serialized (ttl c) x (w\<lparr>detached := later\<rparr>)))"
    and "keyspace (settle_detached c x w) = keyspace w"
  using assms(1) cache_set_settle_rejected [OF assms(2)] cache_set_settle_rejected_keys [OF assms(2)]
  by (simp_all add: settle_detached_def)

lemma proxy_fulfilled_whatever_the_write:
  assumes "serializeKey c params = Inr key"
    and "cache_get c x key w = (Fulfilled cached, w1)" and "\<not> truthy cached"
    and "passthrough c params = Fulfilled v"
  shows "fst (proxy c x params w) = Fulfilled v"
    and "keyspace (snd (proxy c x params w)) = keyspace w1"
  using assms(4)
  by (simp_all add: proxy_miss [OF assms(1-3)] cache_set_call_def emit_def split: sum.splits)

lemma serializer_throw_is_logged:
  "serializeValue c v = Inl e \<Longrightarrow>
   cache_set_call c key v w =
     emit (Log LogWarn ''Error occured while updating a value in cache'' (Some e)) w"
  by (simp add: cache_set_call_def)

lemma cache_set_settle_not_acquired:
  "acquired x = Rejected e \<or> acquired x = Pending \<Longrightarrow>
   cache_set_settle c x key serialized w = emit (Acquire (acquired x)) w"
  by (auto simp: cache_set_settle_def pool_set_def exec_not_acquired emit_def)

text \<open>
  C4. \<open>proxy\<close> is fulfilled with the passthrough's value whatever becomes of the write
  (\<open>proxy_fulfilled_whatever_the_write\<close>), and \<open>set\<close> logs as a warning what
  \<open>serializeValue\<close> throws and what \<^verbatim>\<open>pool.set\<close> is rejected with
  (\<open>serializer_throw_is_logged\<close>, \<open>settle_detached_rejected\<close>). But a write for which the
  pool hands out no connection fails without a rejection: the promise of \<open>exec\<close> stays
  pending, the \<^verbatim>\<open>catch\<close> of \<open>set\<close> never runs, and nothing is logged. On the flag cache,
  after a miss and a passthrough that succeeds, with a pool that times out on the write:
  the call is fulfilled, the trace ends with the rejected acquisition and holds no
  warning, and the value is not cached.
\<close>

theorem write_without_connection_is_not_logged:
  "fst (proxy flags healthy (JStr ''beta'') empty_world) = Fulfilled (JBool True)
   \<and> trace (settle_detached flags unreachable
        (snd (proxy flags healthy (JStr ''beta'') empty_world))) =
       [Acquire (Fulfilled 1), Send 1 (GET ''flag:beta''), Release 1, Resolve NullReply,
        Passthrough (JStr ''beta''), Acquire (Rejected (Error ''ResourceRequest timed out''))]
   \<and> keyspace (settle_detached flags unreachable
        (snd (proxy flags healthy (JStr ''beta'') empty_world))) ''flag:beta'' = None"
  by (simp add: model_defs)

section \<open>The cache: hits, misses and the round trip\<close>

lemma pool_set_healthy:
  assumes "acquired x = Fulfilled client" "failure x = None"
    and "expiration = None \<or> (\<exists>seconds. expiration = Some seconds \<and> 0 \<le> seconds)"
  shows "pool_set key v expiration x w =
     (Fulfilled (StatusReply ''OK''),
      w\<lparr>keyspace := (keyspace w)(key \<mapsto> (v, if expiration = Some 0 then None else expiration)),
        trace := trace w @ [Acquire (Fulfilled client),
          Send client (SET key v (if expiration = Some 0 then None else expiration)),
          Release client, Resolve (StatusReply ''OK'')]\<rparr>)"
proof (cases "expiration = None \<or> expiration = Some 0")
  case True
  then have "pool_set key v expiration = exec (\<lambda>client. SET key v None)"
    by (auto simp: pool_set_def)
  then show ?thesis
    using True by (cases expiration) (simp_all add: exec_served [OF assms(1,2) serve_SET_plain] fun_upd_def)
next
  case False
  then obtain seconds where s: "expiration = Some seconds" "0 < seconds"
    using assms(3) by (cases expiration) auto
  then have "pool_set key v expiration = exec (\<lambda>client. SET key v (Some seconds))"
    by (auto simp: pool_set_def)
  then show ?thesis
    using s by (simp add: exec_served [OF assms(1,2) serve_SET_expiring [OF s(2)]] fun_upd_def)
qed

lemma cache_get_healthy:
  assumes "acquired x = Fulfilled client" "failure x = None"
  shows "cache_get c x key w =
     (case keyspace w key of
        None \<Rightarrow> Fulfilled JUndefined
      | Some (s, ex) \<Rightarrow>
          if s \<noteq> [] then (case deserializeValue c s of Inl e \<Rightarrow> Rejected e | Inr v \<Rightarrow> Fulfilled v)
          else Fulfilled JUndefined,
      snd (pool_get key x w))"
  by (auto simp: cache_get_def pool_get_healthy [OF assms] split: option.splits sum.splits)

lemma keyspace_pool_get:
  assumes "acquired x = Fulfilled client" "failure x = None"
  shows "keyspace (snd (pool_get key x w)) = keyspace w"
    and "detached (snd (pool_get key x w)) = detached w"
    and "passthrough_calls (snd (pool_get key x w)) = passthrough_calls w"
  by (simp_all add: pool_get_healthy [OF assms] passthrough_calls_def)

text \<open>
  C5 (as amended). With a key from the serializer and a read that the store answers:
  when the store holds a non-empty string under the key that deserializes to a truthy
  value, \<open>proxy\<close> is fulfilled with that value and the passthrough is not called; when
  the key is absent, holds the empty string, or holds a string that deserializes to a
  falsy value, the passthrough is called once and its outcome is the outcome of \<open>proxy\<close>.
  So a first call that misses on an absent key, followed by its write meeting a store
  that accepts it, followed by a second call, calls the passthrough once in all, provided
  the value serializes to a non-empty string that deserializes to a truthy value (and the
  configured expiry is not negative, which the store would refuse).
\<close>

theorem hit_needs_a_truthy_value:
  assumes "serializeKey c params = Inr key"
    and "acquired x = Fulfilled client" and "failure x = None"
  shows "(\<forall>s ex cached.
            keyspace w key = Some (s, ex) \<and> s \<noteq> [] \<and> deserializeValue c s = Inr cached
            \<and> truthy cached \<longrightarrow>
              fst (proxy c x params w) = Fulfilled cached
            \<and> passthrough_calls (snd (proxy c x params w)) = passthrough_calls w)
       \<and> (keyspace w key = None \<or> (\<exists>ex. keyspace w key = Some ([], ex))
            \<or> (\<exists>s ex cached. keyspace w key = Some (s, ex) \<and> deserializeValue c s = Inr cached
                  \<and> \<not> truthy cached) \<longrightarrow>
              fst (proxy c x params w) = passthrough c params
            \<and> passthrough_calls (snd (proxy c x params w)) = passthrough_calls w + 1)
       \<and> (\<forall>v serialized cached x2 client2 x3 client3.
            keyspace w key = None \<and> detached w = [] \<and> passthrough c params = Fulfilled v
            \<and> serializeValue c v = Inr serialized \<and> serialized \<noteq> []
            \<and> deserializeValue c serialized = Inr cached \<and> truthy cached
            \<and> (ttl c = None \<or> (\<exists>seconds. ttl c = Some seconds \<and> 0 \<le> seconds))
            \<and> acquired x2 = Fulfilled client2 \<and> failure x2 = None
            \<and> acquired x3 = Fulfilled client3 \<and> failure x3 = None \<longrightarrow>
              fst (proxy c x params w) = Fulfilled v
            \<and> fst (proxy c x3 params (settle_detached c x2 (snd (proxy c x params w)))) =
                Fulfilled cached
            \<and> passthrough_calls
                (snd (proxy c x3 params (settle_detached c x2 (snd (proxy c x params w))))) =
                passthrough_calls w + 1)"
proof (intro conjI allI impI)
  fix s ex cached
  assume h: "keyspace w key = Some (s, ex) \<and> s \<noteq> [] \<and> deserializeValue c s = Inr cached \<and> truthy cached"
  then have g: "cache_get c x key w = (Fulfilled cached, snd (pool_get key x w))"
    by (simp add: cache_get_healthy [OF assms(2,3)])
  show "fst (proxy c x params w) = Fulfilled cached"
    using h by (simp add: proxy_hit [OF assms(1) g])
  show "passthrough_calls (snd (proxy c x params w)) = passthrough_calls w"
    using h by (simp add: proxy_hit [OF assms(1) g] keyspace_pool_get [OF assms(2,3)])
next
  assume h: "keyspace w key = None \<or> (\<exists>ex. keyspace w key = Some ([], ex))
            \<or> (\<exists>s ex cached. keyspace w key = Some (s, ex) \<and> deserializeValue c s = Inr cached
                  \<and> \<not> truthy cached)"
  have "\<exists>cached. cache_get c x key w = (Fulfilled cached, snd (pool_get key x w))
          \<and> \<not> truthy cached"
  proof -
    consider "keyspace w key = None" | ex where "keyspace w key = Some ([], ex)"
      | s ex cached where "keyspace w key = Some (s, ex)" "deserializeValue c s = Inr cached"
          "\<not> truthy cached"
      using h by auto
    then show ?thesis
    proof cases
      case 1
      then show ?thesis
        by (intro exI [of _ JUndefined]) (simp add: cache_get_healthy [OF assms(2,3)])
    next
      case 2
      then show ?thesis
        by (intro exI [of _ JUndefined]) (simp add: cache_get_healthy [OF assms(2,3)])
    next
      case 3
      then show ?thesis
        by (cases "s = []")
           (simp_all add: cache_get_healthy [OF assms(2,3)] exI [of _ JUndefined])
    qed
  qed
  then obtain cached where g: "cache_get c x key w = (Fulfilled cached, snd (pool_get key x w))"
    and f: "\<not> truthy cached"
    by blast
  show "fst (proxy c x params w) = passthrough c params"
    by (rule proxy_miss_outcome(1) [OF assms(1) g f])
  show "passthrough_calls (snd (proxy c x params w)) = passthrough_calls w + 1"
    by (rule proxy_miss_outcome(2) [OF assms(1) g f])
next
  fix v serialized cached and x2 :: exchange and client2 and x3 :: exchange and client3
  assume h: "keyspace w key = None \<and> detached w = [] \<and> passthrough c params = Fulfilled v
            \<and> serializeValue c v = Inr serialized \<and> serialized \<noteq> []
            \<and> deserializeValue c serialized = Inr cached \<and> truthy cached
            \<and> (ttl c = None \<or> (\<exists>seconds. ttl c = Some seconds \<and> 0 \<le> seconds))
            \<and> acquired x2 = Fulfilled client2 \<and> failure x2 = None
            \<and> acquired x3 = Fulfilled client3 \<and> failure x3 = None"
  define w1 where "w1 = snd (pool_get key x w)"
  have g: "cache_get c x key w = (Fulfilled JUndefined, w1)"
    using h by (simp add: cache_get_healthy [OF assms(2,3)] w1_def)
  have p1: "proxy c x params w =
      (Fulfilled v, (emit (Passthrough params) w1)\<lparr>detached := [(key, serialized)]\<rparr>)"
    using h by (simp add: proxy_miss [OF assms(1) g] cache_set_call_def emit_def w1_def
        keyspace_pool_get [OF assms(2,3)])
  define w2 where "w2 = settle_detached c x2 (snd (proxy c x params w))"
  have x2: "acquired x2 = Fulfilled client2" "failure x2 = None"
    and x3: "acquired x3 = Fulfilled client3" "failure x3 = None"
    and t: "ttl c = None \<or> (\<exists>seconds. ttl c = Some seconds \<and> 0 \<le> seconds)"
    using h by simp_all
  have k2: "keyspace w2 key = Some (serialized, if ttl c = Some 0 then None else ttl c)"
    and c2: "passthrough_calls w2 = passthrough_calls w + 1"
    by (simp_all add: w2_def p1 settle_detached_def cache_set_settle_def
        pool_set_healthy [OF x2 t] emit_def passthrough_calls_def w1_def
        pool_get_healthy [OF assms(2,3)])
  have g2: "cache_get c x3 key w2 = (Fulfilled cached, snd (pool_get key x3 w2))"
    using h by (simp add: cache_get_healthy [OF x3] k2)
  show "fst (proxy c x params w) = Fulfilled v"
    by (simp add: p1)
  show "fst (proxy c x3 params (settle_detached c x2 (snd (proxy c x params w)))) = Fulfilled cached"
    using h by (simp add: proxy_hit [OF assms(1) g2] w2_def [symmetric])
  show "passthrough_calls
          (snd (proxy c x3 params (settle_detached c x2 (snd (proxy c x params w))))) =
        passthrough_calls w + 1"
    using h by (simp add: proxy_hit [OF assms(1) g2] w2_def [symmetric] c2
        keyspace_pool_get [OF x3])
qed

theorem hit_needs_a_truthy_value_witness:
  "serializeKey flags (JStr ''beta'') = Inr ''flag:beta''
   \<and> acquired healthy = Fulfilled 1 \<and> failure healthy = None
   \<and> keyspace empty_world ''flag:beta'' = None
   \<and> fst (proxy flags healthy (JStr ''beta'') empty_world) = Fulfilled (JBool True)
   \<and> passthrough_calls (snd (proxy flags healthy (JStr ''beta'') empty_world)) = 1
   \<and> fst (proxy flags healthy (JStr ''beta'')
        (settle_detached flags healthy (snd (proxy flags healthy (JStr ''beta'') empty_world)))) =
       Fulfilled (JBool True)
   \<and> passthrough_calls
        (snd (proxy flags healthy (JStr ''beta'')
           (settle_detached flags healthy (snd (proxy flags healthy (JStr ''beta'') empty_world))))) =
       1"
proof -
  have key: "serializeKey flags (JStr ''beta'') = Inr ''flag:beta''"
    by (simp add: flags_def)
  have read: "acquired healthy = Fulfilled 1" "failure healthy = None"
    by (simp_all add: healthy_def)
  note inst = hit_needs_a_truthy_value [OF key read, of empty_world]
  have absent: "keyspace empty_world ''flag:beta'' = None"
    by (simp add: empty_world_def)
  have first: "fst (proxy flags healthy (JStr ''beta'') empty_world) = passthrough flags (JStr ''beta'')
      \<and> passthrough_calls (snd (proxy flags healthy (JStr ''beta'') empty_world)) =
          passthrough_calls empty_world + 1"
    using inst absent by blast
  have trip: "keyspace empty_world ''flag:beta'' = None \<and> detached empty_world = []
      \<and> passthrough flags (JStr ''beta'') = Fulfilled (JBool True)
      \<and> serializeValue flags (JBool True) = Inr ''true'' \<and> ''true'' \<noteq> ''''
      \<and> deserializeValue flags ''true'' = Inr (JBool True) \<and> truthy (JBool True)
      \<and> (ttl flags = None \<or> (\<exists>seconds. ttl flags = Some seconds \<and> 0 \<le> seconds))
      \<and> acquired healthy = Fulfilled 1 \<and> failure healthy = None
      \<and> acquired healthy = Fulfilled 1 \<and> failure healthy = None"
    by (simp add: flags_def healthy_def empty_world_def)
  have second: "fst (proxy flags healthy (JStr ''beta'')
        (settle_detached flags healthy (snd (proxy flags healthy (JStr ''beta'') empty_world)))) =
       Fulfilled (JBool True)
     \<and> passthrough_calls
        (snd (proxy flags healthy (JStr ''beta'')
           (settle_detached flags healthy (snd (proxy flags healthy (JStr ''beta'') empty_world))))) =
       passthrough_calls empty_world + 1"
    using inst trip by blast
  show ?thesis
    using first second key read absent
    by (simp add: flags_def passthrough_calls_def empty_world_def)
qed

text \<open>
  C5 as stated fails: the store holds \<open>false\<close> under the key of the flag, and \<open>proxy\<close>
  calls the passthrough and returns its \<open>true\<close>; and for a flag whose value is \<open>false\<close>
  two calls in a row, with the write completed in between, call the passthrough twice.
\<close>

theorem cached_falsy_value_counterexample:
  "serializeKey flags (JStr ''beta'') = Inr ''flag:beta''
   \<and> keyspace beta_cached_off ''flag:beta'' = Some (''false'', Some 60)
   \<and> deserializeValue flags ''false'' = Inr (JBool False)
   \<and> fst (proxy flags healthy (JStr ''beta'') beta_cached_off) = Fulfilled (JBool True)
   \<and> passthrough_calls (snd (proxy flags healthy (JStr ''beta'') beta_cached_off)) = 1
   \<and> passthrough_calls
       (snd (proxy flags healthy (JStr ''legacy'')
          (settle_detached flags healthy
             (snd (proxy flags healthy (JStr ''legacy'') empty_world))))) = 2"
  by (simp add: model_defs)

section \<open>Invalidation\<close>

lemma pool_del_healthy:
  assumes "acquired x = Fulfilled client" "failure x = None"
  shows "pool_del [key] x w =
     (Fulfilled (IntegerReply (int (length (filter (\<lambda>k. keyspace w k \<noteq> None) [key])))),
      w\<lparr>keyspace := keyspace w |` (- {key}),
        trace := trace w @ [Acquire (Fulfilled client), Send client (DEL [key]), Release client,
          Resolve (IntegerReply (int (length (filter (\<lambda>k. keyspace w k \<noteq> None) [key]))))]\<rparr>)"
  unfolding pool_del_def
  by (simp add: exec_served [OF assms serve_DEL])

lemma exec_fulfilled_was_served:
  assumes "fst (exec run x w) = Fulfilled r"
  shows "\<exists>client. acquired x = Fulfilled client \<and> failure x = None
           \<and> keyspace (snd (exec run x w)) = snd (serve (run client) (payload x) (keyspace w))"
proof (cases "acquired x")
  case Pending
  then show ?thesis using assms by (simp add: exec_not_acquired)
next
  case (Rejected e)
  then show ?thesis using assms by (simp add: exec_not_acquired)
next
  case (Fulfilled client)
  show ?thesis
  proof (cases "throws (run client)")
    case (Some thrown)
    then show ?thesis
      using assms by (simp add: exec_thrown [where run = run, OF Fulfilled Some])
  next
    case quiet: None
    show ?thesis
    proof (cases "failure x")
      case (Some e)
      then show ?thesis using assms by (simp add: exec_failed [where run = run, OF Fulfilled Some quiet])
    next
      case None
      obtain a ks where s: "serve (run client) (payload x) (keyspace w) = (a, ks)"
        by (cases "serve (run client) (payload x) (keyspace w)")
      show ?thesis
      proof (cases a)
        case (Inl e)
        then show ?thesis
          using assms
          by (simp add: exec_refused [of x client run w e ks] Fulfilled None quiet s [unfolded Inl])
      next
        case (Inr r')
        then show ?thesis
          using s
          by (simp add: exec_served [of x client run w r' ks] Fulfilled None quiet s [unfolded Inr])
      qed
    qed
  qed
qed

lemma keyspace_exec_other_key:
  assumes "\<And>client. run client = DEL [key]" and "k \<noteq> key"
  shows "keyspace (snd (exec run x w)) k = keyspace w k"
proof (cases "acquired x")
  case Pending
  then show ?thesis by (simp add: exec_not_acquired)
next
  case (Rejected e)
  then show ?thesis by (simp add: exec_not_acquired)
next
  case (Fulfilled client)
  show ?thesis
  proof (cases "throws (run client)")
    case (Some thrown)
    then show ?thesis
      using assms(1) [of client] by (simp add: exec_thrown [where run = run, OF Fulfilled Some])
  next
    case quiet: None
    show ?thesis
    proof (cases "failure x")
      case (Some e)
      then show ?thesis by (simp add: exec_failed [where run = run, OF Fulfilled Some quiet])
    next
      case None
      show ?thesis
        using assms
        by (simp add: exec_served [of x client run w _ "keyspace w |` (- {key})"] Fulfilled None
            quiet serve_DEL)
    qed
  qed
qed

text \<open>
  On the paths where \<^verbatim>\<open>pool.del\<close> settles, \<open>invalidate\<close> does what is asked of it: with a
  key from the serializer it sends the \<open>DEL\<close> of that one key when it is given a
  connection, no other key of the store changes, a rejected delete rejects \<open>invalidate\<close>
  with the same error, and once \<open>invalidate\<close> is fulfilled the key is absent, so the next
  \<open>proxy\<close> whose read the store answers calls the passthrough once more.
\<close>

lemma invalidate_deletes_its_key:
  assumes "serializeKey c params = Inr key"
  shows "commands_sent (snd (invalidate c x params w)) =
           commands_sent w @ (case acquired x of Fulfilled client \<Rightarrow> [DEL [key]] | _ \<Rightarrow> [])
       \<and> (\<forall>k. k \<noteq> key \<longrightarrow> keyspace (snd (invalidate c x params w)) k = keyspace w k)
       \<and> (\<forall>e. fst (pool_del [key] x w) = Rejected e \<longrightarrow>
             fst (invalidate c x params w) = Rejected e)
       \<and> (fst (invalidate c x params w) = Fulfilled () \<longrightarrow>
             keyspace (snd (invalidate c x params w)) key = None
           \<and> (\<forall>x' client'. acquired x' = Fulfilled client' \<and> failure x' = None \<longrightarrow>
                 fst (proxy c x' params (snd (invalidate c x params w))) = passthrough c params
               \<and> passthrough_calls (snd (proxy c x' params (snd (invalidate c x params w)))) =
                   passthrough_calls (snd (invalidate c x params w)) + 1))"
proof -
  have inv: "invalidate c x params w =
      (case fst (pool_del [key] x w) of
         Fulfilled deleted \<Rightarrow> Fulfilled () | Rejected e \<Rightarrow> Rejected e | Pending \<Rightarrow> Pending,
       snd (pool_del [key] x w))"
    using assms
    by (cases "pool_del [key] x w"; cases "fst (pool_del [key] x w)")
       (simp_all add: invalidate_def)
  have sent: "commands_sent (snd (invalidate c x params w)) =
      commands_sent w @ (case acquired x of Fulfilled client \<Rightarrow> [DEL [key]] | _ \<Rightarrow> [])"
    by (simp add: inv pool_del_def commands_sent_exec)
  have frame: "\<forall>k. k \<noteq> key \<longrightarrow> keyspace (snd (invalidate c x params w)) k = keyspace w k"
    by (simp add: inv pool_del_def keyspace_exec_other_key)
  have fails: "\<forall>e. fst (pool_del [key] x w) = Rejected e \<longrightarrow>
      fst (invalidate c x params w) = Rejected e"
    by (simp add: inv)
  have after: "keyspace (snd (invalidate c x params w)) key = None
      \<and> (\<forall>x' client'. acquired x' = Fulfilled client' \<and> failure x' = None \<longrightarrow>
            fst (proxy c x' params (snd (invalidate c x params w))) = passthrough c params
          \<and> passthrough_calls (snd (proxy c x' params (snd (invalidate c x params w)))) =
              passthrough_calls (snd (invalidate c x params w)) + 1)"
    if ok: "fst (invalidate c x params w) = Fulfilled ()"
  proof -
    have "\<exists>deleted. fst (exec (\<lambda>client. DEL [key]) x w) = Fulfilled deleted"
      using ok by (simp add: inv pool_del_def split: promise.splits)
    then obtain deleted where "fst (exec (\<lambda>client. DEL [key]) x w) = Fulfilled deleted"
      by blast
    from exec_fulfilled_was_served [OF this]
    have gone: "keyspace (snd (invalidate c x params w)) key = None"
      by (auto simp: inv pool_del_def serve_DEL)
    have "fst (proxy c x' params (snd (invalidate c x params w))) = passthrough c params
        \<and> passthrough_calls (snd (proxy c x' params (snd (invalidate c x params w)))) =
            passthrough_calls (snd (invalidate c x params w)) + 1"
      if x': "acquired x' = Fulfilled client'" "failure x' = None" for x' client'
    proof -
      have g: "cache_get c x' key (snd (invalidate c x params w)) =
          (Fulfilled JUndefined, snd (pool_get key x' (snd (invalidate c x params w))))"
        by (simp add: cache_get_healthy [OF x'] gone)
      show ?thesis
        using proxy_miss_outcome [OF assms g] by simp
    qed
    then show ?thesis
      using gone by blast
  qed
  show ?thesis
    using sent frame fails after by blast
qed

text \<open>
  C6. \<open>invalidate\<close> awaits \<^verbatim>\<open>pool.del\<close> and catches nothing, so it ends as \<^verbatim>\<open>pool.del\<close> ends
  (\<open>invalidate_deletes_its_key\<close>). But a delete for which the pool hands out no connection
  does not end in a rejection: the promise of \<open>exec\<close> stays pending. On the flag cache,
  with a pool that times out: \<open>invalidate\<close> never settles, no command is sent, the key
  stays in the store, and the caller is not told that the delete failed.
\<close>

theorem invalidate_without_connection_never_settles:
  "fst (invalidate flags unreachable (JStr ''beta'') beta_cached_off) = Pending
   \<and> trace (snd (invalidate flags unreachable (JStr ''beta'') beta_cached_off)) =
       [Acquire (Rejected (Error ''ResourceRequest timed out''))]
   \<and> commands_sent (snd (invalidate flags unreachable (JStr ''beta'') beta_cached_off)) = []
   \<and> keyspace (snd (invalidate flags unreachable (JStr ''beta'') beta_cached_off)) ''flag:beta'' =
       Some (''false'', Some 60)"
  by (simp add: model_defs)

section \<open>Expiry of the cache entries\<close>

lemma commands_sent_emit_log [simp]:
  "commands_sent (emit (Log lvl msg err) w) = commands_sent w"
  by (simp add: commands_sent_def emit_def List.map_filter_def)

lemma commands_sent_cache_set_settle:
  "commands_sent (cache_set_settle c x key v w) = commands_sent (snd (pool_set key v (ttl c) x w))"
  by (cases "pool_set key v (ttl c) x w"; cases "fst (pool_set key v (ttl c) x w)")
     (simp_all add: cache_set_settle_def)

lemma pool_set_falsy:
  "expiration = None \<or> expiration = Some 0 \<Longrightarrow>
   pool_set key v expiration = exec (\<lambda>client. SET key v None)"
  by (auto simp: pool_set_def)

text \<open>
  C10. With an expiration that is \<^verbatim>\<open>undefined\<close> or \<open>0\<close>, \<^verbatim>\<open>pool.set\<close> is the executor
  run on the plain \<open>SET\<close> of the key and the value, with no \<^verbatim>\<open>EX\<close>. A cache whose \<open>ttl\<close>
  is such an expiration therefore sends that plain \<open>SET\<close> and no other command when its
  write meets the store, and when the store answers, the entry it holds has no expiry.
\<close>

theorem falsy_ttl_sets_without_expiry:
  assumes "expiration = None \<or> expiration = Some 0"
  shows "pool_set key v expiration = exec (\<lambda>client. SET key v None)
       \<and> (ttl c = expiration \<longrightarrow>
             commands_sent (cache_set_settle c x key v w) =
               commands_sent w
                 @ (case acquired x of Fulfilled client \<Rightarrow> [SET key v None] | _ \<Rightarrow> [])
           \<and> (\<forall>client. acquired x = Fulfilled client \<and> failure x = None \<longrightarrow>
                 keyspace (cache_set_settle c x key v w) key = Some (v, None)))"
proof (intro conjI impI allI)
  show "pool_set key v expiration = exec (\<lambda>client. SET key v None)"
    by (rule pool_set_falsy [OF assms])
next
  assume "ttl c = expiration"
  then show "commands_sent (cache_set_settle c x key v w) =
      commands_sent w @ (case acquired x of Fulfilled client \<Rightarrow> [SET key v None] | _ \<Rightarrow> [])"
    by (simp add: commands_sent_cache_set_settle pool_set_falsy [OF assms] commands_sent_exec)
next
  fix client
  assume t: "ttl c = expiration" and "acquired x = Fulfilled client \<and> failure x = None"
  then have x: "acquired x = Fulfilled client" "failure x = None"
    by simp_all
  have "expiration = None \<or> (\<exists>seconds. expiration = Some seconds \<and> 0 \<le> seconds)"
    using assms by auto
  from pool_set_healthy [OF x this, of key v w]
  show "keyspace (cache_set_settle c x key v w) key = Some (v, None)"
    using assms t by (auto simp: cache_set_settle_def)
qed

theorem falsy_ttl_sets_without_expiry_witness:
  "(Some 0 = None \<or> Some (0::int) = Some 0)
   \<and> pool_set ''flag:beta'' ''true'' (Some 0) = exec (\<lambda>client. SET ''flag:beta'' ''true'' None)
   \<and> commands_sent (cache_set_settle (flags\<lparr>ttl := Some 0\<rparr>) healthy ''flag:beta'' ''true'' empty_world) =
       [SET ''flag:beta'' ''true'' None]
   \<and> keyspace (cache_set_settle (flags\<lparr>ttl := Some 0\<rparr>) healthy ''flag:beta'' ''true'' empty_world)
        ''flag:beta'' = Some (''true'', None)"
proof -
  have zero: "Some 0 = None \<or> Some (0::int) = Some 0"
    by simp
  note inst = falsy_ttl_sets_without_expiry
                [OF zero, of "''flag:beta''" "''true''" "flags\<lparr>ttl := Some 0\<rparr>" healthy empty_world]
  have t: "ttl (flags\<lparr>ttl := Some 0\<rparr>) = Some 0"
    by simp
  have x: "acquired healthy = Fulfilled 1 \<and> failure healthy = None"
    by (simp add: healthy_def)
  have "commands_sent (cache_set_settle (flags\<lparr>ttl := Some 0\<rparr>) healthy ''flag:beta'' ''true'' empty_world) =
          commands_sent empty_world
            @ (case acquired healthy of Fulfilled client \<Rightarrow> [SET ''flag:beta'' ''true'' None] | _ \<Rightarrow> [])
      \<and> keyspace (cache_set_settle (flags\<lparr>ttl := Some 0\<rparr>) healthy ''flag:beta'' ''true'' empty_world)
          ''flag:beta'' = Some (''true'', None)"
    using inst t x by blast
  then show ?thesis
    using inst zero
    by (simp add: healthy_def empty_world_def commands_sent_def List.map_filter_def)
qed

section \<open>The health check\<close>

lemma healthcheck_not_acquired:
  "acquired x = Rejected e \<Longrightarrow>
   healthcheck pool x clock w = (Rejected e, emit (Acquire (Rejected e)) w)"
  by (simp add: healthcheck_def acquire_def)

lemma healthcheck_ping_failed:
  assumes "acquired x = Fulfilled client" "failure x = Some e"
  shows "\<exists>r. fst (healthcheck pool x clock w) = Fulfilled r \<and> \<not> available r
           \<and> info r = Some (message e)
           \<and> trace (snd (healthcheck pool x clock w)) =
               trace w @ [Acquire (Fulfilled client), Send client (PING None), Release client]"
  using assms
  by (simp add: healthcheck_def acquire_def send_def release_def emit_def Let_def split_beta)

text \<open>
  C2. A failed ping is captured in the result (\<open>healthcheck_ping_failed\<close>), but a failed
  acquisition is not: with a pool that cannot hand out a connection, \<open>healthcheck\<close> is
  rejected with the error of the acquisition and returns no result at all.
\<close>

theorem healthcheck_rejects_when_unreachable:
  "fst (healthcheck localhost unreachable ((0, 1200), (0, 3400)) empty_world) =
     Rejected (Error ''ResourceRequest timed out'')
   \<and> trace (snd (healthcheck localhost unreachable ((0, 1200), (0, 3400)) empty_world)) =
       [Acquire (Rejected (Error ''ResourceRequest timed out''))]"
  by (simp add: healthcheck_not_acquired unreachable_def emit_def empty_world_def)

end
